theory Spec2Isabelle
  imports Complex_Main "HOL-Library.Multiset"
begin

section \<open>Strings, floats and errors\<close>

text \<open>
  A Python \<open>str\<close> is a sequence of Unicode code points; a code point is a natural number.
  \<open>u\<close> writes an ASCII literal.
\<close>

type_synonym ustr = "nat list"

definition u :: "string \<Rightarrow> ustr" where
  "u s = map of_char s"

text \<open>
  \<open>str.isspace\<close> of one code point, which is also what \<open>\s\<close> matches in a \<open>str\<close> pattern:
  TAB..CR, FS..US, space, NEL, NBSP, OGHAM SPACE MARK, EN QUAD..HAIR SPACE, LINE and PARAGRAPH
  SEPARATOR, NARROW NBSP, MEDIUM MATHEMATICAL SPACE, IDEOGRAPHIC SPACE.
\<close>

definition isspace :: "nat \<Rightarrow> bool" where
  "isspace c =
     ((9 \<le> c \<and> c \<le> 13) \<or> (28 \<le> c \<and> c \<le> 32) \<or> c = 133 \<or> c = 160 \<or> c = 5760 \<or>
      (8192 \<le> c \<and> c \<le> 8202) \<or> c = 8232 \<or> c = 8233 \<or> c = 8239 \<or> c = 8287 \<or> c = 12288)"

definition is_ascii :: "nat \<Rightarrow> bool" where
  "is_ascii c = (c < 128)"

text \<open>\<open>[a-zA-Z0-9]\<close>\<close>

definition is_alnum :: "nat \<Rightarrow> bool" where
  "is_alnum c = ((97 \<le> c \<and> c \<le> 122) \<or> (65 \<le> c \<and> c \<le> 90) \<or> (48 \<le> c \<and> c \<le> 57))"

text \<open>\<open>str.strip()\<close>: leading and trailing whitespace removed.\<close>

definition lstrip :: "ustr \<Rightarrow> ustr" where
  "lstrip s = dropWhile isspace s"

definition rstrip :: "ustr \<Rightarrow> ustr" where
  "rstrip s = rev (dropWhile isspace (rev s))"

definition strip :: "ustr \<Rightarrow> ustr" where
  "strip s = rstrip (lstrip s)"

text \<open>
  \<open>str.lower()\<close>. On a string of ASCII characters it maps \<open>A..Z\<close> to \<open>a..z\<close>; on any other
  string it is what the Unicode case tables say, which are not part of the repository: they are
  the parameter \<open>L\<close>.
\<close>

definition ascii_lower :: "nat \<Rightarrow> nat" where
  "ascii_lower c = (if 65 \<le> c \<and> c \<le> 90 then c + 32 else c)"

definition lower :: "(ustr \<Rightarrow> ustr) \<Rightarrow> ustr \<Rightarrow> ustr" where
  "lower L s = (if list_all is_ascii s then map ascii_lower s else L s)"

text \<open>
  \<open>unicodedata.normalize("NFKD", s).encode("ascii", "ignore").decode("ascii")\<close>. The
  compatibility decomposition of a string of ASCII characters is the string itself; on any other
  string it is the Unicode database's, the parameter \<open>N\<close>. Encoding with \<open>ignore\<close> drops every
  code point that is not ASCII.
\<close>

definition nfkd :: "(ustr \<Rightarrow> ustr) \<Rightarrow> ustr \<Rightarrow> ustr" where
  "nfkd N s = (if list_all is_ascii s then s else N s)"

definition encode_ascii_ignore :: "ustr \<Rightarrow> ustr" where
  "encode_ascii_ignore s = filter is_ascii s"

text \<open>\<open>re.sub(r"[^a-zA-Z0-9\s]", " ", s)\<close>\<close>

definition sub_no_alnum :: "ustr \<Rightarrow> ustr" where
  "sub_no_alnum s = map (\<lambda>c. if is_alnum c \<or> isspace c then c else 32) s"

text \<open>\<open>re.sub(r"\s+", " ", s)\<close>: every maximal run of whitespace becomes one space.\<close>

function sub_espacios :: "ustr \<Rightarrow> ustr" where
  "sub_espacios [] = []"
| "sub_espacios (c # cs) =
     (if isspace c then 32 # sub_espacios (dropWhile isspace cs) else c # sub_espacios cs)"
  by pat_completeness auto
termination
  by (relation "measure length") (auto simp: length_dropWhile_le less_Suc_eq_le)

text \<open>
  A float: a finite value, an infinity or NaN. Comparisons with NaN are false.
\<close>

datatype pyfloat = Fin real | PInf | NInf | NaN

fun fle :: "pyfloat \<Rightarrow> pyfloat \<Rightarrow> bool" where
  "fle NaN _ = False"
| "fle _ NaN = False"
| "fle NInf _ = True"
| "fle _ PInf = True"
| "fle (Fin x) (Fin y) = (x \<le> y)"
| "fle _ _ = False"

definition isna :: "pyfloat \<Rightarrow> bool" where
  "isna x = (x = NaN)"

text \<open>
  What the program raises. \<open>FetchError\<close> stands for any exception of \<open>pd.read_csv\<close>,
  \<open>GeocoderError\<close> for any exception of the geocoding provider, \<open>ValidationError\<close> for the
  request model's rejection (HTTP 422), \<open>HTTPException\<close> carries status code and detail.
\<close>

datatype error =
    ValueError
  | IndexError
  | FetchError
  | GeocoderError
  | ValidationError
  | HTTPException nat ustr

section \<open>Text utilities (app/logic.py)\<close>

text \<open>
  \<open>normalizar_texto(valor, fallback="Sin dato")\<close>. A value is a string or missing
  (\<open>None\<close>, for which \<open>pd.isna\<close> holds).
\<close>

definition normalizar_texto :: "(ustr \<Rightarrow> ustr) \<Rightarrow> ustr option \<Rightarrow> ustr \<Rightarrow> ustr" where
  "normalizar_texto L valor fallback =
     (case valor of
        None \<Rightarrow> fallback
      | Some v \<Rightarrow>
          (let texto = strip v in
           if texto = [] \<or> lower L texto = u ''nan'' then fallback else texto))"

definition Sin_dato :: ustr where
  "Sin_dato = u ''Sin dato''"

definition texto_normalizado :: "(ustr \<Rightarrow> ustr) \<Rightarrow> (ustr \<Rightarrow> ustr) \<Rightarrow> ustr option \<Rightarrow> ustr" where
  "texto_normalizado L N valor =
     (let texto = normalizar_texto L valor [];
          texto = encode_ascii_ignore (nfkd N texto);
          texto = sub_no_alnum (lower L texto)
      in strip (sub_espacios texto))"

section \<open>Request model of the search operation (app/main.py)\<close>

text \<open>
  \<open>radio_km: float = Field(ge=0.1, le=10.0, default=2.0)\<close>: an absent radius is the default,
  a given one is checked against both bounds.
\<close>

definition radio_km_field :: "real option \<Rightarrow> error + real" where
  "radio_km_field r =
     (case r of
        None \<Rightarrow> Inr 2.0
      | Some x \<Rightarrow> if 0.1 \<le> x \<and> x \<le> 10.0 then Inr x else Inl ValidationError)"

section \<open>Settings (app/settings.py)\<close>

definition SPREADSHEET_ID :: ustr where
  "SPREADSHEET_ID = u ''10vUOhRr7IAXlRrkBphxEP4ApXYBgrnuxJq6G83GnfHI''"

text \<open>The dictionary \<open>GID_CAFES\<close>, in its insertion order; the fourth key is \<open>C\<acute>ordoba\<close>.\<close>

definition GID_CAFES :: "(ustr \<times> ustr) list" where
  "GID_CAFES =
     [(u ''Mar del Plata'', u ''0''),
      (u ''Buenos Aires'', u ''1296176686''),
      (u ''La Plata'', u ''208452991''),
      (u ''C'' @ [243] @ u ''rdoba'', u ''1250014567''),
      (u ''Rosario'', u ''1691979590'')]"

definition sheet_url :: "ustr \<Rightarrow> ustr" where
  "sheet_url gid =
     u ''https://docs.google.com/spreadsheets/d/'' @ SPREADSHEET_ID @
     u ''/gviz/tq?tqx=out:csv&gid='' @ gid"

definition CACHE_TTL :: real where
  "CACHE_TTL = 600"

section \<open>Tables\<close>

text \<open>
  A row of a sheet read with \<open>dtype=str\<close>: every cell is a string or missing. The columns are
  those the program reads.
\<close>

record fila_csv =
  CAFE_csv :: "ustr option"
  UBICACION_csv :: "ustr option"
  TOSTADOR_csv :: "ustr option"
  LAT_csv :: "ustr option"
  LONG_csv :: "ustr option"
  CIUDAD_csv :: "ustr option"

text \<open>A row once the coordinate columns are numeric; a table is the list of its rows.\<close>

record cafe =
  CAFE :: "ustr option"
  UBICACION :: "ustr option"
  TOSTADOR :: "ustr option"
  LAT :: pyfloat
  LONG :: pyfloat
  CIUDAD :: "ustr option"

text \<open>A row with the column \<open>DIST_KM\<close> that \<open>cafes_en_radio\<close> adds.\<close>

record cafe_km = cafe +
  DIST_KM :: real

type_synonym coords = "pyfloat \<times> pyfloat"

section \<open>The environment\<close>

text \<open>
  What the program takes from outside the repository: \<open>pd.read_csv\<close> (a table or an exception),
  \<open>pd.to_numeric\<close> on one cell (NaN for a text that is not a number), the clock (the value of
  the n-th call of \<open>time.time()\<close>), the geocoding provider (coordinates, not found, or an
  exception), \<open>geopy\<close>'s geodesic distance in km, the Unicode tables of \<open>str.lower\<close> and of NFKD,
  and the formatting of floats.
\<close>

record env =
  read_csv :: "ustr \<Rightarrow> error + fila_csv list"
  to_numeric :: "ustr \<Rightarrow> pyfloat"
  time_time :: "nat \<Rightarrow> real"
  geocode :: "ustr \<Rightarrow> error + coords option"
  geodesic_km :: "coords \<Rightarrow> coords \<Rightarrow> real"
  unicode_lower :: "ustr \<Rightarrow> ustr"
  unicode_nfkd :: "ustr \<Rightarrow> ustr"
  str_float :: "pyfloat \<Rightarrow> ustr"
  format_2f :: "real \<Rightarrow> ustr"

section \<open>In-memory cache (app/logic.py)\<close>

record CacheItem =
  ts :: real
  df :: "cafe list"

text \<open>
  \<open>DataCache\<close>, without the roaster table, which no operation modelled here reads. The state of
  the process is the cache and the number of clock reads so far.
\<close>

record DataCache =
  cafes_por_ciudad :: "ustr \<rightharpoonup> CacheItem"
  todos_los_cafes :: "CacheItem option"

record state =
  cache :: DataCache
  ticks :: nat

text \<open>
  \<open>item is not None and (time.time() - item.ts) < CACHE_TTL\<close>: the clock is read only when there
  is an item.
\<close>

definition is_fresh :: "env \<Rightarrow> CacheItem option \<Rightarrow> state \<Rightarrow> bool \<times> state" where
  "is_fresh w item s =
     (case item of
        None \<Rightarrow> (False, s)
      | Some it \<Rightarrow> (time_time w (ticks s) - ts it < CACHE_TTL, s\<lparr>ticks := Suc (ticks s)\<rparr>))"

section \<open>Loading the data (app/logic.py)\<close>

text \<open>\<open>.str.replace(",", ".", regex=False)\<close> on one cell.\<close>

definition replace_coma :: "ustr option \<Rightarrow> ustr option" where
  "replace_coma celda = map_option (map (\<lambda>c. if c = 44 then 46 else c)) celda"

text \<open>\<open>pd.to_numeric(..., errors="coerce")\<close> on one cell: a missing cell stays NaN.\<close>

definition to_numeric_coerce :: "env \<Rightarrow> ustr option \<Rightarrow> pyfloat" where
  "to_numeric_coerce w celda = (case celda of None \<Rightarrow> NaN | Some t \<Rightarrow> to_numeric w t)"

definition columnas_numericas :: "env \<Rightarrow> fila_csv \<Rightarrow> cafe" where
  "columnas_numericas w r =
     \<lparr>CAFE = CAFE_csv r, UBICACION = UBICACION_csv r, TOSTADOR = TOSTADOR_csv r,
      LAT = to_numeric_coerce w (replace_coma (LAT_csv r)),
      LONG = to_numeric_coerce w (replace_coma (LONG_csv r)),
      CIUDAD = CIUDAD_csv r\<rparr>"

text \<open>
  The cleaning of \<open>cargar_cafes\<close>, step by step: the two numeric columns, \<open>dropna\<close>, the
  latitude range, the longitude range, the city column.
\<close>

definition limpieza :: "env \<Rightarrow> ustr \<Rightarrow> fila_csv list \<Rightarrow> cafe list" where
  "limpieza w ciudad filas =
     (let d = map (columnas_numericas w) filas;
          d = filter (\<lambda>r. \<not> isna (LAT r) \<and> \<not> isna (LONG r)) d;
          d = filter (\<lambda>r. fle (Fin (- 90)) (LAT r) \<and> fle (LAT r) (Fin 90)) d;
          d = filter (\<lambda>r. fle (Fin (- 180)) (LONG r) \<and> fle (LONG r) (Fin 180)) d
      in map (\<lambda>r. r\<lparr>CIUDAD := Some ciudad\<rparr>) d)"

text \<open>
  \<open>cargar_cafes\<close>: an unknown city raises \<open>ValueError\<close>; a fresh cached table is returned as it
  is; otherwise the sheet is read, or the local file when reading the sheet raises, and an
  exception of that second read propagates; the cleaned table is stored with the time of storing.
\<close>

definition cargar_cafes :: "env \<Rightarrow> ustr \<Rightarrow> state \<Rightarrow> (error + cafe list) \<times> state" where
  "cargar_cafes w ciudad s =
     (case map_of GID_CAFES ciudad of
        None \<Rightarrow> (Inl ValueError, s)
      | Some gid \<Rightarrow>
          (let cached = cafes_por_ciudad (cache s) ciudad;
               (fresh, s1) = is_fresh w cached s
           in case (fresh, cached) of
                (True, Some it) \<Rightarrow> (Inr (df it), s1)
              | _ \<Rightarrow>
                  (case (case read_csv w (sheet_url gid) of
                           Inr filas \<Rightarrow> Inr filas
                         | Inl _ \<Rightarrow> read_csv w (u ''Cafes.csv'')) of
                     Inl e \<Rightarrow> (Inl e, s1)
                   | Inr filas \<Rightarrow>
                       (let d = limpieza w ciudad filas;
                            t = time_time w (ticks s1);
                            c = cache s1
                        in (Inr d,
                            s1\<lparr>cache := c\<lparr>cafes_por_ciudad :=
                                 (cafes_por_ciudad c)(ciudad \<mapsto> \<lparr>ts = t, df = d\<rparr>)\<rparr>,
                               ticks := Suc (ticks s1)\<rparr>)))))"

text \<open>The loop of \<open>cargar_todos_los_cafes\<close>: a city whose load raises is skipped.\<close>

fun cargar_ciudades :: "env \<Rightarrow> ustr list \<Rightarrow> state \<Rightarrow> cafe list list \<times> state" where
  "cargar_ciudades w [] s = ([], s)"
| "cargar_ciudades w (ciudad # resto) s =
     (case cargar_cafes w ciudad s of
        (Inr d, s1) \<Rightarrow> (case cargar_ciudades w resto s1 of (dfs, s2) \<Rightarrow> (d # dfs, s2))
      | (Inl e, s1) \<Rightarrow> cargar_ciudades w resto s1)"

definition cargar_todos_los_cafes :: "env \<Rightarrow> state \<Rightarrow> (error + cafe list) \<times> state" where
  "cargar_todos_los_cafes w s =
     (let cached = todos_los_cafes (cache s);
          (fresh, s1) = is_fresh w cached s
      in case (fresh, cached) of
           (True, Some it) \<Rightarrow> (Inr (df it), s1)
         | _ \<Rightarrow>
             (case cargar_ciudades w (map fst GID_CAFES) s1 of
                (dfs, s2) \<Rightarrow>
                  (let df_all = (if dfs \<noteq> [] then concat dfs else []);
                       t = time_time w (ticks s2);
                       c = cache s2
                   in (Inr df_all,
                       s2\<lparr>cache := c\<lparr>todos_los_cafes := Some \<lparr>ts = t, df = df_all\<rparr>\<rparr>,
                          ticks := Suc (ticks s2)\<rparr>))))"

section \<open>Geocoding (app/logic.py)\<close>

text \<open>
  \<open>geocodificar\<close>: an empty or blank address is not sent to the provider; an exception of the
  provider and a not-found answer both give \<open>None\<close>.
\<close>

definition geocodificar :: "env \<Rightarrow> ustr \<Rightarrow> ustr \<Rightarrow> error + coords option" where
  "geocodificar w direccion ciudad =
     (if direccion = [] \<or> strip direccion = [] then Inr None
      else
        (case geocode w (direccion @ u '', '' @ ciudad @ u '', Argentina'') of
           Inl _ \<Rightarrow> Inr None
         | Inr None \<Rightarrow> Inr None
         | Inr (Some loc) \<Rightarrow> Inr (Some loc)))"

text \<open>\<open>str.split()\<close>: the maximal runs of characters that are not whitespace.\<close>

function split :: "ustr \<Rightarrow> ustr list" where
  "split s =
     (case dropWhile isspace s of
        [] \<Rightarrow> []
      | c # cs \<Rightarrow>
          (c # takeWhile (\<lambda>x. \<not> isspace x) cs) # split (dropWhile (\<lambda>x. \<not> isspace x) cs))"
  by pat_completeness auto
termination
proof (relation "measure length")
  show "wf (measure length)" by simp
next
  fix s :: ustr and c cs
  assume a: "dropWhile isspace s = c # cs"
  have "length (dropWhile (\<lambda>x. \<not> isspace x) cs) \<le> length cs"
    by (rule length_dropWhile_le)
  moreover have "length (c # cs) \<le> length s"
    using length_dropWhile_le [of isspace s] a by simp
  ultimately show "(dropWhile (\<lambda>x. \<not> isspace x) cs, s) \<in> measure length" by simp
qed

text \<open>\<open>tok in texto\<close>: \<open>tok\<close> occurs in \<open>texto\<close> as a substring.\<close>

fun contiene :: "ustr \<Rightarrow> ustr \<Rightarrow> bool" where
  "contiene tok [] = (tok = [])"
| "contiene tok (c # cs) = (take (length tok) (c # cs) = tok \<or> contiene tok cs)"

text \<open>
  \<open>[t for t in direccion_norm.split() if len(t) >= 3] or direccion_norm.split()\<close>
\<close>

definition tokens_de :: "ustr \<Rightarrow> ustr list" where
  "tokens_de direccion_norm =
     (let largos = filter (\<lambda>t. 3 \<le> length t) (split direccion_norm)
      in if largos \<noteq> [] then largos else split direccion_norm)"

text \<open>\<open>.fillna("")\<close> on one cell.\<close>

definition fillna_vacio :: "ustr option \<Rightarrow> ustr" where
  "fillna_vacio celda = (case celda of None \<Rightarrow> [] | Some t \<Rightarrow> t)"

text \<open>
  The inner function \<open>score\<close>, with the two normalized columns it reads:
  \<open>sum(1 for tok in tokens if tok in texto)\<close>.
\<close>

definition score :: "env \<Rightarrow> ustr list \<Rightarrow> cafe \<Rightarrow> nat" where
  "score w tokens row =
     (let UBICACION_NORM =
            texto_normalizado (unicode_lower w) (unicode_nfkd w) (Some (fillna_vacio (UBICACION row)));
          CAFE_NORM =
            texto_normalizado (unicode_lower w) (unicode_nfkd w) (Some (fillna_vacio (CAFE row)));
          texto = UBICACION_NORM @ [32] @ CAFE_NORM
      in length (filter (\<lambda>tok. contiene tok texto) tokens))"

text \<open>
  What is asked of \<open>sort_values\<close>: the result holds the rows of the table, ordered by the key.
  Which of several rows with equal keys comes first is the library's choice, so the sorting
  routine is a parameter of the operations that sort.
\<close>

definition ordena :: "('a \<Rightarrow> 'a \<Rightarrow> bool) \<Rightarrow> ('a list \<Rightarrow> 'a list) \<Rightarrow> bool" where
  "ordena le srt = (\<forall>xs. mset (srt xs) = mset xs \<and> sorted_wrt le (srt xs))"

text \<open>Descending by the column \<open>MATCH\<close>, ascending by the column \<open>DIST_KM\<close>.\<close>

definition por_MATCH_desc :: "cafe \<times> nat \<Rightarrow> cafe \<times> nat \<Rightarrow> bool" where
  "por_MATCH_desc a b = (snd b \<le> snd a)"

definition por_DIST_KM :: "cafe_km \<Rightarrow> cafe_km \<Rightarrow> bool" where
  "por_DIST_KM a b = (DIST_KM a \<le> DIST_KM b)"

text \<open>
  \<open>geocodificar_desde_cafes\<close>. A candidate is a row with its \<open>MATCH\<close>; \<open>.iloc[0]\<close> on a table
  without rows raises \<open>IndexError\<close>.
\<close>

definition geocodificar_desde_cafes ::
  "env \<Rightarrow> ((cafe \<times> nat) list \<Rightarrow> (cafe \<times> nat) list) \<Rightarrow> ustr \<Rightarrow> cafe list \<Rightarrow> error + coords option"
where
  "geocodificar_desde_cafes w sort_MATCH direccion cafes_df =
     (let direccion_norm =
            texto_normalizado (unicode_lower w) (unicode_nfkd w) (Some direccion)
      in if direccion_norm = [] then Inr None
         else
           (let tokens = tokens_de direccion_norm;
                candidatos = map (\<lambda>row. (row, score w tokens row)) cafes_df
            in case sort_MATCH candidatos of
                 [] \<Rightarrow> Inl IndexError
               | mejor # _ \<Rightarrow>
                   if snd mejor \<le> 0 then Inr None
                   else Inr (Some (LAT (fst mejor), LONG (fst mejor)))))"

definition resolver_coordenadas ::
  "env \<Rightarrow> ((cafe \<times> nat) list \<Rightarrow> (cafe \<times> nat) list) \<Rightarrow> ustr \<Rightarrow> ustr \<Rightarrow> cafe list \<Rightarrow>
     error + (coords option \<times> ustr option)"
where
  "resolver_coordenadas w sort_MATCH direccion ciudad cafes_df =
     (case geocodificar w direccion ciudad of
        Inl e \<Rightarrow> Inl e
      | Inr (Some coords) \<Rightarrow> Inr (Some coords, Some (u ''online''))
      | Inr None \<Rightarrow>
          (case geocodificar_desde_cafes w sort_MATCH direccion cafes_df of
             Inl e \<Rightarrow> Inl e
           | Inr (Some coords_local) \<Rightarrow> Inr (Some coords_local, Some (u ''local''))
           | Inr None \<Rightarrow> Inr (None, None)))"

section \<open>Business logic (app/logic.py)\<close>

definition con_DIST_KM :: "env \<Rightarrow> coords \<Rightarrow> cafe \<Rightarrow> cafe_km" where
  "con_DIST_KM w coords r =
     cafe.extend r (cafe_km.fields (geodesic_km w coords (LAT r, LONG r)))"

definition cafes_en_radio :: "env \<Rightarrow> cafe list \<Rightarrow> coords \<Rightarrow> real \<Rightarrow> cafe_km list" where
  "cafes_en_radio w cafes_df coords radio_km =
     (let cafes_calc = map (con_DIST_KM w coords) cafes_df
      in filter (\<lambda>r. DIST_KM r \<le> radio_km) cafes_calc)"

text \<open>\<open>str\<close> of an integer, and \<open>int\<close> of a float (truncation towards zero).\<close>

fun digitos :: "nat \<Rightarrow> ustr" where
  "digitos n = (if n < 10 then [48 + n] else digitos (n div 10) @ [48 + n mod 10])"

definition str_int :: "int \<Rightarrow> ustr" where
  "str_int i = (if i < 0 then 45 # digitos (nat (- i)) else digitos (nat i))"

definition int_de_float :: "real \<Rightarrow> int" where
  "int_de_float x = (if 0 \<le> x then \<lfloor>x\<rfloor> else \<lceil>x\<rceil>)"

definition distancia_corta :: "env \<Rightarrow> real \<Rightarrow> ustr" where
  "distancia_corta w km =
     (if km < 1 then str_int (int_de_float (km * 1000)) @ u '' m''
      else format_2f w km @ u '' km'')"

section \<open>Endpoints (app/main.py)\<close>

record CafeOut =
  CAFE_out :: ustr
  UBICACION_out :: ustr
  TOSTADOR_out :: ustr
  LAT_out :: pyfloat
  LONG_out :: pyfloat
  CIUDAD_out :: ustr
  DIST_KM_out :: "real option"
  DISTANCIA_out :: "ustr option"
  MAPS_out :: "ustr option"

record BuscarCafesIn =
  ciudad_in :: ustr
  direccion_in :: ustr
  radio_km_in :: real
  tostador_in :: "ustr option"

record RecomendarIn =
  ciudad_rec :: ustr
  direccion_rec :: ustr

record RecomendarOut =
  cafe_rec :: CafeOut
  fuente_geocoding :: ustr

text \<open>
  The request model of the search: the body gives the city, the address, maybe a radius and
  maybe a roaster; the radius is validated by its field declaration.
\<close>

definition validar_BuscarCafesIn ::
  "ustr \<Rightarrow> ustr \<Rightarrow> real option \<Rightarrow> ustr option \<Rightarrow> error + BuscarCafesIn" where
  "validar_BuscarCafesIn ciudad direccion radio tostador =
     (case radio_km_field radio of
        Inl e \<Rightarrow> Inl e
      | Inr r \<Rightarrow>
          Inr \<lparr>ciudad_in = ciudad, direccion_in = direccion, radio_km_in = r,
               tostador_in = tostador\<rparr>)"

definition Sin_tostador_cargado :: ustr where
  "Sin_tostador_cargado = u ''Sin tostador cargado''"

definition Ciudad_invalida :: error where
  "Ciudad_invalida = HTTPException 400 (u ''Ciudad inv'' @ [225] @ u ''lida'')"

definition No_se_pudo_geocodificar :: error where
  "No_se_pudo_geocodificar =
     HTTPException 404 (u ''No se pudo geocodificar la direcci'' @ [243] @ u ''n'')"

definition No_hay_cafes_en_750_m :: error where
  "No_hay_cafes_en_750_m =
     HTTPException 404 (u ''No hay caf'' @ [233] @ u ''s en 750 m para recomendar'')"

definition maps_url :: "env \<Rightarrow> pyfloat \<Rightarrow> pyfloat \<Rightarrow> ustr" where
  "maps_url w lat long =
     u ''https://www.google.com/maps/search/?api=1&query='' @ str_float w lat @ u '','' @
     str_float w long"

text \<open>\<open>str\<close> of a cell: a missing cell prints as \<open>nan\<close>.\<close>

definition str_celda :: "ustr option \<Rightarrow> ustr" where
  "str_celda celda = (case celda of None \<Rightarrow> u ''nan'' | Some t \<Rightarrow> t)"

text \<open>The record built for one row of the search result.\<close>

definition CafeOut_de_busqueda :: "env \<Rightarrow> cafe_km \<Rightarrow> CafeOut" where
  "CafeOut_de_busqueda w r =
     \<lparr>CAFE_out = normalizar_texto (unicode_lower w) (CAFE r) Sin_dato,
      UBICACION_out = normalizar_texto (unicode_lower w) (UBICACION r) Sin_dato,
      TOSTADOR_out = normalizar_texto (unicode_lower w) (TOSTADOR r) Sin_tostador_cargado,
      LAT_out = LAT r,
      LONG_out = LONG r,
      CIUDAD_out = str_celda (CIUDAD r),
      DIST_KM_out = Some (DIST_KM r),
      DISTANCIA_out = Some (distancia_corta w (DIST_KM r)),
      MAPS_out = Some (maps_url w (LAT r) (LONG r))\<rparr>"

text \<open>
  \<open>buscar_cafes\<close>. The roaster filter applies when the roaster is given, not empty and not
  \<open>"Todos"\<close>; it compares the column \<open>TOSTADOR\<close> of the table with the given string.
\<close>

definition buscar_cafes ::
  "env \<Rightarrow> ((cafe \<times> nat) list \<Rightarrow> (cafe \<times> nat) list) \<Rightarrow> (cafe_km list \<Rightarrow> cafe_km list) \<Rightarrow>
     BuscarCafesIn \<Rightarrow> state \<Rightarrow> (error + CafeOut list) \<times> state"
where
  "buscar_cafes w sort_MATCH sort_DIST_KM payload s =
     (if map_of GID_CAFES (ciudad_in payload) = None then (Inl Ciudad_invalida, s)
      else
        (case cargar_cafes w (ciudad_in payload) s of
           (Inl e, s1) \<Rightarrow> (Inl e, s1)
         | (Inr cafes_df, s1) \<Rightarrow>
             (case resolver_coordenadas w sort_MATCH (direccion_in payload) (ciudad_in payload)
                     cafes_df of
                Inl e \<Rightarrow> (Inl e, s1)
              | Inr (None, _) \<Rightarrow> (Inl No_se_pudo_geocodificar, s1)
              | Inr (Some coords, _) \<Rightarrow>
                  (let resultado =
                         sort_DIST_KM (cafes_en_radio w cafes_df coords (radio_km_in payload));
                       resultado =
                         (case tostador_in payload of
                            None \<Rightarrow> resultado
                          | Some t \<Rightarrow>
                              if t \<noteq> [] \<and> t \<noteq> u ''Todos''
                              then filter (\<lambda>r. TOSTADOR r = Some t) resultado
                              else resultado)
                   in if resultado = [] then (Inr [], s1)
                      else (Inr (map (CafeOut_de_busqueda w) resultado), s1)))))"

text \<open>
  \<open>recomendar_cafe\<close>. \<open>sample(n=1)\<close> draws one row at random: the draw is the number \<open>azar\<close>,
  taken modulo the number of rows.
\<close>

definition recomendar_cafe ::
  "env \<Rightarrow> ((cafe \<times> nat) list \<Rightarrow> (cafe \<times> nat) list) \<Rightarrow> nat \<Rightarrow> RecomendarIn \<Rightarrow> state \<Rightarrow>
     (error + RecomendarOut) \<times> state"
where
  "recomendar_cafe w sort_MATCH azar payload s =
     (if map_of GID_CAFES (ciudad_rec payload) = None then (Inl Ciudad_invalida, s)
      else
        (case cargar_cafes w (ciudad_rec payload) s of
           (Inl e, s1) \<Rightarrow> (Inl e, s1)
         | (Inr cafes_df, s1) \<Rightarrow>
             (case resolver_coordenadas w sort_MATCH (direccion_rec payload) (ciudad_rec payload)
                     cafes_df of
                Inl e \<Rightarrow> (Inl e, s1)
              | Inr (None, _) \<Rightarrow> (Inl No_se_pudo_geocodificar, s1)
              | Inr (Some coords, fuente) \<Rightarrow>
                  (let recomendados = cafes_en_radio w cafes_df coords 0.75
                   in if recomendados = [] then (Inl No_hay_cafes_en_750_m, s1)
                      else
                        (let recomendado = recomendados ! (azar mod length recomendados);
                             cafe =
                               (CafeOut_de_busqueda w recomendado)
                                 \<lparr>CIUDAD_out := ciudad_rec payload\<rparr>
                         in (Inr \<lparr>cafe_rec = cafe,
                                  fuente_geocoding =
                                    (case fuente of
                                       None \<Rightarrow> u ''desconocida''
                                     | Some f \<Rightarrow> if f \<noteq> [] then f else u ''desconocida'')\<rparr>,
                             s1))))))"

section \<open>Auxiliary notions for the proofs\<close>

text \<open>
  A string is collapsed when every whitespace character in it is a single space that is not
  followed by whitespace; \<open>okc\<close> are the characters a normalized match string is made of,
  \<open>cls\<close> those of the string before whitespace is collapsed.
\<close>

fun collapsed :: "ustr \<Rightarrow> bool" where
  "collapsed [] = True"
| "collapsed [c] = (if isspace c then c = 32 else True)"
| "collapsed (c # d # cs) = ((if isspace c then c = 32 \<and> \<not> isspace d else True) \<and> collapsed (d # cs))"

definition okc :: "nat \<Rightarrow> bool" where
  "okc c = ((97 \<le> c \<and> c \<le> 122) \<or> (48 \<le> c \<and> c \<le> 57) \<or> c = 32)"

definition cls :: "nat \<Rightarrow> bool" where
  "cls c = ((97 \<le> c \<and> c \<le> 122) \<or> (48 \<le> c \<and> c \<le> 57) \<or> (isspace c \<and> c < 128))"

section \<open>Properties\<close>

subsection \<open>Whitespace stripping\<close>

lemma lstrip_idem: "lstrip (lstrip s) = lstrip s"
  by (simp add: lstrip_def)

lemma rstrip_idem: "rstrip (rstrip s) = rstrip s"
  by (simp add: rstrip_def)

lemma rstrip_snoc: "rstrip (s @ [c]) = (if isspace c then rstrip s else s @ [c])"
  by (simp add: rstrip_def)

lemma rstrip_hd: "s \<noteq> [] \<Longrightarrow> \<not> isspace (hd s) \<Longrightarrow> rstrip s \<noteq> [] \<and> hd (rstrip s) = hd s"
proof (induction s rule: rev_induct)
  case Nil
  then show ?case by simp
next
  case (snoc c s)
  show ?case
  proof (cases "s = []")
    case True
    with snoc.prems show ?thesis by (simp add: rstrip_def)
  next
    case False
    with snoc show ?thesis by (simp add: rstrip_snoc)
  qed
qed

lemma lstrip_rstrip: "lstrip (rstrip (lstrip s)) = rstrip (lstrip s)"
proof (cases "lstrip s = []")
  case True
  then have a: "rstrip (lstrip s) = []" by (simp add: rstrip_def)
  have b: "lstrip [] = []" by (simp add: lstrip_def)
  show ?thesis by (simp only: a b)
next
  case False
  then have "\<not> isspace (hd (lstrip s))"
    unfolding lstrip_def by (metis hd_dropWhile)
  with False have "rstrip (lstrip s) \<noteq> []" "hd (rstrip (lstrip s)) = hd (lstrip s)"
    using rstrip_hd by blast+
  with \<open>\<not> isspace (hd (lstrip s))\<close> show ?thesis
    unfolding lstrip_def [of "rstrip (dropWhile isspace s)"]
    by (cases "rstrip (lstrip s)") (auto simp: lstrip_def)
qed

lemma strip_idem: "strip (strip s) = strip s"
  by (simp add: strip_def lstrip_rstrip rstrip_idem)

subsection \<open>Radius validation of the search request\<close>

text \<open>
  C1 (as stated) fails: the claim lets every radius of the interval (0, 10] through, but the
  field is declared with \<open>ge=0.1\<close>, so a radius of 0.05 km is rejected.
\<close>

theorem radio_km_open_interval_counterexample:
  "(0::real) < 0.05 \<and> (0.05::real) \<le> 10 \<and> radio_km_field (Some 0.05) = Inl ValidationError"
  by (simp add: radio_km_field_def)

text \<open>
  C1 (amended): the search request accepts exactly the radii of the closed interval [0.1, 10] km
  and rejects every other radius with a validation error; an absent radius is 2.0 km.
\<close>

theorem radio_km_field_accepts_iff:
  "radio_km_field None = Inr 2 \<and>
   (radio_km_field (Some r) = Inr r) = (0.1 \<le> r \<and> r \<le> 10) \<and>
   (radio_km_field (Some r) = Inl ValidationError) = (\<not> (0.1 \<le> r \<and> r \<le> 10))"
  by (simp add: radio_km_field_def)

theorem radio_km_field_accepts_iff_witness:
  "radio_km_field None = Inr 2 \<and> radio_km_field (Some 0.1) = Inr 0.1 \<and>
   radio_km_field (Some 10) = Inr 10 \<and> radio_km_field (Some 10.5) = Inl ValidationError"
  using radio_km_field_accepts_iff [of "0.1"] radio_km_field_accepts_iff [of 10]
    radio_km_field_accepts_iff [of "10.5"]
  by simp

subsection \<open>Text normalizers\<close>

lemma isspace_32: "isspace 32"
  by (simp add: isspace_def)

lemma collapsed_Cons_nonspace: "\<not> isspace c \<Longrightarrow> collapsed (c # xs) = collapsed xs"
  by (cases xs) auto

lemma collapsed_tl: "collapsed (c # xs) \<Longrightarrow> collapsed xs"
  by (cases xs) auto

lemma sub_espacios_Nil_iff: "(sub_espacios t = []) = (t = [])"
  by (cases t) auto

lemma sub_espacios_hd: "t \<noteq> [] \<Longrightarrow> \<not> isspace (hd t) \<Longrightarrow> hd (sub_espacios t) = hd t"
  by (cases t) auto

lemma collapsed_sub_espacios: "collapsed (sub_espacios s)"
proof (induction s rule: sub_espacios.induct)
  case 1
  then show ?case by simp
next
  case (2 c cs)
  show ?case
  proof (cases "isspace c")
    case True
    let ?r = "dropWhile isspace cs"
    have ih: "collapsed (sub_espacios ?r)" using 2 True by simp
    show ?thesis
    proof (cases "?r = []")
      case True
      have e: "sub_espacios (c # cs) = 32 # sub_espacios ?r"
        using \<open>isspace c\<close> by simp
      show ?thesis unfolding e True by (simp add: isspace_32)
    next
      case False
      then have "\<not> isspace (hd ?r)" by (metis hd_dropWhile)
      with False have h: "hd (sub_espacios ?r) = hd ?r" "sub_espacios ?r \<noteq> []"
        by (simp_all add: sub_espacios_hd sub_espacios_Nil_iff)
      then obtain d ds where e: "sub_espacios ?r = d # ds" "d = hd ?r"
        by (cases "sub_espacios ?r") auto
      with ih \<open>\<not> isspace (hd ?r)\<close> \<open>isspace c\<close> show ?thesis by (simp add: isspace_32)
    qed
  next
    case False
    with 2 show ?thesis by (simp add: collapsed_Cons_nonspace)
  qed
qed

lemma sub_espacios_collapsed: "collapsed s \<Longrightarrow> sub_espacios s = s"
proof (induction s rule: collapsed.induct)
  case 1
  then show ?case by simp
next
  case (2 c)
  then show ?case by (auto split: if_splits)
next
  case (3 c d cs)
  then show ?case by (auto split: if_splits)
qed

lemma collapsed_dropWhile: "collapsed s \<Longrightarrow> collapsed (dropWhile P s)"
  by (induction s) (auto dest: collapsed_tl)

lemma collapsed_butlast: "collapsed (s @ [c]) \<Longrightarrow> collapsed s"
proof (induction s rule: collapsed.induct)
  case 1
  then show ?case by simp
next
  case (2 a)
  then show ?case by (auto split: if_splits)
next
  case (3 a d cs)
  then show ?case by (auto split: if_splits)
qed

lemma collapsed_rstrip: "collapsed s \<Longrightarrow> collapsed (rstrip s)"
proof (induction s rule: rev_induct)
  case Nil
  then show ?case by (simp add: rstrip_def)
next
  case (snoc c s)
  then show ?case by (auto simp: rstrip_snoc dest: collapsed_butlast)
qed

lemma collapsed_strip: "collapsed s \<Longrightarrow> collapsed (strip s)"
  by (simp add: strip_def lstrip_def collapsed_dropWhile collapsed_rstrip)

lemma set_strip: "set (strip s) \<subseteq> set s"
proof -
  have "set (rstrip t) \<subseteq> set t" for t
    unfolding rstrip_def using set_dropWhileD [of _ isspace "rev t"] by auto
  moreover have "set (lstrip s) \<subseteq> set s"
    unfolding lstrip_def using set_dropWhileD by fastforce
  ultimately show ?thesis unfolding strip_def by blast
qed

lemma okc_sub_espacios: "list_all cls s \<Longrightarrow> list_all okc (sub_espacios s)"
proof (induction s rule: sub_espacios.induct)
  case 1
  then show ?case by simp
next
  case (2 c cs)
  have d: "list_all cls (dropWhile isspace cs)"
    using 2(3) set_dropWhileD [of _ isspace cs] by (auto simp: list_all_iff)
  show ?case
  proof (cases "isspace c")
    case True
    with 2(1) d have "list_all okc (sub_espacios (dropWhile isspace cs))" by simp
    moreover have "okc 32" by (simp add: okc_def)
    ultimately show ?thesis using True by simp
  next
    case False
    with 2(2) 2(3) have "list_all okc (sub_espacios cs)" by simp
    moreover from False 2(3) have "okc c" by (auto simp: okc_def cls_def)
    ultimately show ?thesis using False by simp
  qed
qed

lemma cls_sub_no_alnum:
  "list_all is_ascii t \<Longrightarrow> list_all cls (sub_no_alnum (map ascii_lower t))"
  by (induction t) (auto simp: sub_no_alnum_def cls_def is_alnum_def ascii_lower_def is_ascii_def isspace_def)

lemma okc_props: "okc c \<Longrightarrow> is_ascii c \<and> ascii_lower c = c \<and> (is_alnum c \<or> isspace c)"
  by (auto simp: okc_def is_ascii_def ascii_lower_def is_alnum_def isspace_def)


lemma lower_okc: "list_all okc s \<Longrightarrow> lower L s = s"
proof -
  assume a: "list_all okc s"
  then have "list_all is_ascii s" by (auto simp: list_all_iff dest: okc_props)
  moreover from a have "map ascii_lower s = s"
    by (induction s) (auto dest: okc_props)
  ultimately show ?thesis by (simp add: lower_def)
qed

lemma nfkd_okc: "list_all okc s \<Longrightarrow> encode_ascii_ignore (nfkd N s) = s"
proof -
  assume a: "list_all okc s"
  then have b: "list_all is_ascii s" by (auto simp: list_all_iff dest: okc_props)
  then have "filter is_ascii s = s" by (induction s) auto
  with b show ?thesis by (simp add: nfkd_def encode_ascii_ignore_def)
qed

lemma sub_no_alnum_okc: "list_all okc s \<Longrightarrow> sub_no_alnum s = s"
  unfolding sub_no_alnum_def by (induction s) (auto dest: okc_props)

text \<open>The pipeline after the first step of \<open>texto_normalizado\<close>.\<close>

lemma texto_normalizado_unfold:
  "texto_normalizado L N v =
     strip (sub_espacios (sub_no_alnum (lower L (encode_ascii_ignore (nfkd N (normalizar_texto L v []))))))"
  by (simp add: texto_normalizado_def Let_def)

lemma pipeline_Nil:
  "strip (sub_espacios (sub_no_alnum (lower L (encode_ascii_ignore (nfkd N []))))) = []"
  by (simp add: nfkd_def encode_ascii_ignore_def lower_def sub_no_alnum_def strip_def lstrip_def rstrip_def)

lemma texto_normalizado_canonical:
  "list_all okc (texto_normalizado L N v) \<and> collapsed (texto_normalizado L N v) \<and>
   strip (texto_normalizado L N v) = texto_normalizado L N v"
proof -
  let ?t = "encode_ascii_ignore (nfkd N (normalizar_texto L v []))"
  have asc: "list_all is_ascii ?t" by (simp add: encode_ascii_ignore_def list_all_iff)
  then have "lower L ?t = map ascii_lower ?t" by (simp add: lower_def)
  with asc have "list_all cls (sub_no_alnum (lower L ?t))" by (simp add: cls_sub_no_alnum)
  then have "list_all okc (sub_espacios (sub_no_alnum (lower L ?t)))" by (rule okc_sub_espacios)
  then have 1: "list_all okc (strip (sub_espacios (sub_no_alnum (lower L ?t))))"
    using set_strip [of "sub_espacios (sub_no_alnum (lower L ?t))"] by (auto simp: list_all_iff)
  have 2: "collapsed (strip (sub_espacios (sub_no_alnum (lower L ?t))))"
    by (simp add: collapsed_strip collapsed_sub_espacios)
  show ?thesis using 1 2 by (simp add: texto_normalizado_unfold strip_idem)
qed

lemma texto_normalizado_second_pass:
  assumes "list_all okc s" "collapsed s" "strip s = s"
  shows "texto_normalizado L N (Some s) = (if s = u ''nan'' then [] else s)"
proof (cases "s = [] \<or> s = u ''nan''")
  case True
  with assms have "normalizar_texto L (Some s) [] = []"
    by (auto simp: normalizar_texto_def Let_def lower_okc)
  with True show ?thesis by (auto simp: texto_normalizado_unfold pipeline_Nil)
next
  case False
  with assms have "normalizar_texto L (Some s) [] = s"
    by (auto simp: normalizar_texto_def Let_def lower_okc)
  with False assms show ?thesis
    by (simp add: texto_normalizado_unfold nfkd_okc lower_okc sub_no_alnum_okc sub_espacios_collapsed)
qed

lemma normalizar_texto_Sin_dato:
  "normalizar_texto L (Some Sin_dato) Sin_dato = Sin_dato"
  by (simp add: normalizar_texto_def Sin_dato_def u_def strip_def lstrip_def rstrip_def isspace_def
      lower_def is_ascii_def ascii_lower_def Let_def)

text \<open>
  C2 (as stated) fails for \<open>texto_normalizado\<close>: the match form of \<open>"nan!"\<close> is \<open>"nan"\<close>, and
  \<open>normalizar_texto\<close> takes the string \<open>"nan"\<close> for a missing value, so normalizing it again gives
  the empty string.
\<close>

theorem texto_normalizado_not_idempotent_counterexample:
  "texto_normalizado id id (Some (u ''nan!'')) = u ''nan'' \<and>
   texto_normalizado id id (Some (texto_normalizado id id (Some (u ''nan!'')))) = [] \<and>
   texto_normalizado id id (Some (texto_normalizado id id (Some (u ''nan!'')))) \<noteq>
     texto_normalizado id id (Some (u ''nan!''))"
  by (simp add: texto_normalizado_def normalizar_texto_def u_def strip_def lstrip_def rstrip_def
      isspace_def lower_def is_ascii_def ascii_lower_def Let_def nfkd_def encode_ascii_ignore_def
      sub_no_alnum_def is_alnum_def)

text \<open>
  C2 (amended): \<open>normalizar_texto\<close> with the default fallback is idempotent on every value, and
  \<open>texto_normalizado\<close> applied to its own result returns that result, except when the result is
  the string \<open>"nan"\<close>, which it maps to the empty string. The Unicode tables \<open>L\<close> and \<open>N\<close> are
  arbitrary.
\<close>

theorem normalizers_idempotent:
  "normalizar_texto L (Some (normalizar_texto L v Sin_dato)) Sin_dato = normalizar_texto L v Sin_dato \<and>
   texto_normalizado L N (Some (texto_normalizado L N v)) =
     (if texto_normalizado L N v = u ''nan'' then [] else texto_normalizado L N v)"
proof
  show "normalizar_texto L (Some (normalizar_texto L v Sin_dato)) Sin_dato = normalizar_texto L v Sin_dato"
  proof (cases v)
    case None
    then have "normalizar_texto L v Sin_dato = Sin_dato" by (simp add: normalizar_texto_def)
    then show ?thesis by (simp add: normalizar_texto_Sin_dato)
  next
    case (Some x)
    show ?thesis
    proof (cases "strip x = [] \<or> lower L (strip x) = u ''nan''")
      case True
      with Some have "normalizar_texto L v Sin_dato = Sin_dato"
        by (auto simp: normalizar_texto_def Let_def)
      then show ?thesis by (simp add: normalizar_texto_Sin_dato)
    next
      case False
      with Some have "normalizar_texto L v Sin_dato = strip x"
        by (auto simp: normalizar_texto_def Let_def)
      with False show ?thesis
        by (simp add: normalizar_texto_def Let_def strip_idem)
    qed
  qed
next
  show "texto_normalizado L N (Some (texto_normalizado L N v)) =
     (if texto_normalizado L N v = u ''nan'' then [] else texto_normalizado L N v)"
    using texto_normalizado_canonical [of L N v] by (intro texto_normalizado_second_pass) auto
qed

theorem normalizers_idempotent_witness:
  "normalizar_texto id (Some (normalizar_texto id (Some (u ''  Bar  '')) Sin_dato)) Sin_dato = u ''Bar'' \<and>
   texto_normalizado id id (Some (texto_normalizado id id (Some (u ''  Av. Colon  1500 '')))) =
     u ''av colon 1500''"
proof -
  have a: "normalizar_texto id (Some (u ''  Bar  '')) Sin_dato = u ''Bar''"
    by (simp add: normalizar_texto_def u_def strip_def lstrip_def rstrip_def isspace_def lower_def
        is_ascii_def ascii_lower_def Let_def)
  have b: "texto_normalizado id id (Some (u ''  Av. Colon  1500 '')) = u ''av colon 1500''"
    by (simp add: texto_normalizado_def normalizar_texto_def u_def strip_def lstrip_def rstrip_def
        isspace_def lower_def is_ascii_def ascii_lower_def Let_def nfkd_def encode_ascii_ignore_def
        sub_no_alnum_def is_alnum_def)
  have c: "u ''av colon 1500'' \<noteq> u ''nan''" by (simp add: u_def)
  show ?thesis
    using normalizers_idempotent [of id "Some (u ''  Bar  '')" id]
      normalizers_idempotent [of id "Some (u ''  Av. Colon  1500 '')" id]
    by (simp add: a b c)
qed

end
